theory Spec2Isabelle
  imports Main "HOL-Library.Word" "HOL-Library.Multiset" "HOL-Library.Product_Lexorder"
begin

section \<open>Errors\<close>

text \<open>
  Every exception the modelled code can raise is a value of \<open>error\<close>; a function that can
  raise returns \<open>error + 'a\<close> with \<open>Inl\<close> for the exception.
  \<^item> \<open>E_ASSERTION_FAILURE\<close>: \<^verbatim>\<open>internal::raise<ErrorCode::E_ASSERTION_FAILURE>\<close>;
  \<^item> \<open>E_INVALID_USER_ARGUMENT\<close>: \<^verbatim>\<open>user_input::check<ErrorCode::E_INVALID_USER_ARGUMENT>\<close>;
  \<^item> \<open>CheckFailure\<close>: a failed \<^verbatim>\<open>util::check\<close>;
  \<^item> \<open>BsonError\<close>: a bsoncxx accessor applied to an absent element or one of another type;
  \<^item> \<open>External\<close>: an exception of a collaborator that is passed in as a parameter;
  \<^item> \<open>UndefinedBehaviour\<close>: the C++ has no defined result (an iterator range past the end
    of a vector).
\<close>

datatype error =
    E_ASSERTION_FAILURE
  | E_INVALID_USER_ARGUMENT
  | CheckFailure
  | BsonError
  | External string
  | UndefinedBehaviour

definition bind_err :: "error + 'a \<Rightarrow> ('a \<Rightarrow> error + 'b) \<Rightarrow> error + 'b" where
  "bind_err m f = (case m of Inl e \<Rightarrow> Inl e | Inr x \<Rightarrow> f x)"

section \<open>clause.hpp: the data the clauses work on\<close>

text \<open>
  Modelled from the spec: \<^verbatim>\<open>pipelines::RangesAndKey\<close> (frame_slice.hpp) is not part of the
  sources at hand. Section 3 of the specification gives the row range and the column range
  as half-open integer intervals \<open>[start, end)\<close> and a plan element as row range, column
  range and storage key.
\<close>

type_synonym RowRange = "nat \<times> nat"
type_synonym ColRange = "nat \<times> nat"

record 'k RangesAndKey =
  row_range :: RowRange
  col_range :: ColRange
  key :: 'k

type_synonym EntityId = nat

text \<open>
  The result of a plan-level \<^verbatim>\<open>structure_for_processing\<close>: the argument vector as the call
  leaves it (it is taken by non-const reference) and the groups of indexes into it.
\<close>

type_synonym 'k plan_structure = "'k RangesAndKey list \<times> nat list list"

subsection \<open>Clauses that must not be first\<close>

definition AggregationClause_structure_for_processing ::
  "'k RangesAndKey list \<Rightarrow> error + 'k plan_structure" where
  "AggregationClause_structure_for_processing ranges_and_keys = Inl E_ASSERTION_FAILURE"

definition MergeClause_structure_for_processing ::
  "'k RangesAndKey list \<Rightarrow> error + 'k plan_structure" where
  "MergeClause_structure_for_processing ranges_and_keys = Inl E_ASSERTION_FAILURE"

definition ConcatClause_structure_for_processing ::
  "'k RangesAndKey list \<Rightarrow> error + 'k plan_structure" where
  "ConcatClause_structure_for_processing ranges_and_keys = Inl E_ASSERTION_FAILURE"

subsection \<open>OutputSchema and ColumnStatsGenerationClause::modify\_schema\<close>

text \<open>
  Modelled from the spec: the class \<^verbatim>\<open>OutputSchema\<close> is declared outside the sources at hand.
  Section 3 of the specification: an ordered list of (column name, type), the declared index
  column, a flag per column (dense or sparse) and a dynamic-schema flag. A column is a triple
  (name, type, sparse). \<open>OutputSchema_default\<close> is the value-initialised
  \<^verbatim>\<open>OutputSchema{}\<close>.
\<close>

record OutputSchema =
  columns :: "(string \<times> string \<times> bool) list"
  index_column :: "string option"
  schema_is_dynamic :: bool

definition OutputSchema_default :: OutputSchema where
  "OutputSchema_default = \<lparr>columns = [], index_column = None, schema_is_dynamic = False\<rparr>"

definition ColumnStatsGenerationClause_modify_schema :: "OutputSchema \<Rightarrow> OutputSchema" where
  "ColumnStatsGenerationClause_modify_schema output_schema = OutputSchema_default"

subsection \<open>FilterClause: construction\<close>

text \<open>
  Modelled from the spec: the variant type of \<^verbatim>\<open>ExpressionContext::root_node_name_\<close>
  (expression_context.hpp) is not part of the sources at hand. Its alternatives here are the
  three name types clause.hpp itself uses (\<^verbatim>\<open>ExpressionName\<close>, \<^verbatim>\<open>ValueName\<close>,
  \<^verbatim>\<open>ColumnName\<close>); the specification has expression nodes refer to columns and value
  literals by name. Of the expression context the constructor reads the root node name only.
\<close>

datatype VariantNode =
    ColumnName string
  | ValueName string
  | ExpressionName string

record ExpressionContext =
  root_node_name :: VariantNode

datatype PipelineOptimisation = SPEED | MEMORY

record ClauseInfo =
  input_columns :: "string set option"

record FilterClause =
  fc_clause_info :: ClauseInfo
  fc_expression_context :: ExpressionContext
  fc_root_node_name :: string
  fc_optimisation :: PipelineOptimisation

definition FilterClause_ctor ::
  "string set \<Rightarrow> ExpressionContext \<Rightarrow> PipelineOptimisation option \<Rightarrow> error + FilterClause" where
  "FilterClause_ctor cols expression_context optimisation =
     (case root_node_name expression_context of
        ExpressionName n \<Rightarrow>
          Inr \<lparr>fc_clause_info = \<lparr>input_columns = Some cols\<rparr>,
               fc_expression_context = expression_context,
               fc_root_node_name = n,
               fc_optimisation = (case optimisation of None \<Rightarrow> SPEED | Some p \<Rightarrow> p)\<rparr>
      | ColumnName n \<Rightarrow> Inl E_INVALID_USER_ARGUMENT
      | ValueName n \<Rightarrow> Inl E_INVALID_USER_ARGUMENT)"

subsection \<open>PartitionClause::process\<close>

text \<open>
  The component manager is a state \<open>'cm\<close> passed through the call. The three helpers of
  clause_utils.hpp that \<^verbatim>\<open>process\<close> calls on a non-empty input are parameters:
  \<open>gather_entities\<close> reads the entities of the listed ids, \<open>partition_processing_segment\<close>
  splits the processing unit by the grouping column and \<open>push_entities\<close> publishes one
  processing unit and returns its new ids.
\<close>

fun push_all ::
  "('cm \<Rightarrow> 'proc \<Rightarrow> EntityId list \<times> 'cm) \<Rightarrow> 'proc list \<Rightarrow> EntityId list \<Rightarrow> 'cm
     \<Rightarrow> EntityId list \<times> 'cm" where
  "push_all push_entities [] output cm = (output, cm)"
| "push_all push_entities (partitioned_proc # rest) output cm =
     (let (proc_entity_ids, cm') = push_entities cm partitioned_proc
      in push_all push_entities rest (output @ proc_entity_ids) cm')"

definition PartitionClause_process ::
  "('cm \<Rightarrow> EntityId list \<Rightarrow> error + 'proc \<times> 'cm)
   \<Rightarrow> ('proc \<Rightarrow> string \<Rightarrow> bool \<Rightarrow> error + 'proc list)
   \<Rightarrow> ('cm \<Rightarrow> 'proc \<Rightarrow> EntityId list \<times> 'cm)
   \<Rightarrow> string \<Rightarrow> bool \<Rightarrow> 'cm \<Rightarrow> EntityId list \<Rightarrow> error + EntityId list \<times> 'cm" where
  "PartitionClause_process gather_entities partition_processing_segment push_entities
       grouping_column dynamic_schema cm entity_ids =
     (if entity_ids = [] then Inr ([], cm)
      else bind_err (gather_entities cm entity_ids) (\<lambda>(proc, cm1).
           bind_err (partition_processing_segment proc grouping_column dynamic_schema)
             (\<lambda>partitioned_procs. Inr (push_all push_entities partitioned_procs [] cm1))))"

subsection \<open>Structuring by row slice\<close>

text \<open>
  Modelled from the spec: \<^verbatim>\<open>structure_by_row_slice\<close> (clause_utils.hpp) is not part of the
  sources at hand. Section 4.2 of the specification: sort the plan lexicographically by
  (row range start, column range start), then partition it so that each group contains
  exactly the entries sharing one row range. The sorted plan replaces the argument; a group
  lists the positions, in the sorted plan, of the entries of one row range, and the groups
  come in the order in which their row ranges first occur.
\<close>

definition slice_order :: "'k RangesAndKey \<Rightarrow> nat \<times> nat" where
  "slice_order rk = (fst (row_range rk), fst (col_range rk))"

definition row_ranges_in_order :: "'k RangesAndKey list \<Rightarrow> RowRange list" where
  "row_ranges_in_order plan = rev (remdups (rev (map row_range plan)))"

definition group_by_row_range :: "'k RangesAndKey list \<Rightarrow> nat list list" where
  "group_by_row_range plan =
     map (\<lambda>r. filter (\<lambda>i. row_range (plan ! i) = r) [0..<length plan])
       (row_ranges_in_order plan)"

definition structure_by_row_slice :: "'k RangesAndKey list \<Rightarrow> 'k plan_structure" where
  "structure_by_row_slice ranges_and_keys =
     (let sorted_plan = sort_key slice_order ranges_and_keys
      in (sorted_plan, group_by_row_range sorted_plan))"

subsection \<open>PassthroughClause and SortClause: structuring\<close>

definition PassthroughClause_structure_for_processing ::
  "'k RangesAndKey list \<Rightarrow> error + 'k plan_structure" where
  "PassthroughClause_structure_for_processing ranges_and_keys =
     Inr (structure_by_row_slice ranges_and_keys)"

definition PassthroughClause_structure_for_processing_entities ::
  "EntityId list list \<Rightarrow> EntityId list list" where
  "PassthroughClause_structure_for_processing_entities entity_ids_vec = entity_ids_vec"

text \<open>
  \<^verbatim>\<open>SortClause::structure_for_processing\<close> erases the first \<open>incompletes_after_\<close>
  elements of the plan and structures what is left. Erasing more elements than the vector
  holds has no defined result in C++.
\<close>

definition SortClause_structure_for_processing ::
  "nat \<Rightarrow> 'k RangesAndKey list \<Rightarrow> error + 'k plan_structure" where
  "SortClause_structure_for_processing incompletes_after ranges_and_keys =
     (if length ranges_and_keys < incompletes_after then Inl UndefinedBehaviour
      else Inr (structure_by_row_slice (drop incompletes_after ranges_and_keys)))"

text \<open>
  A plan of three entries given in descending order: two column slices of the rows
  \<open>[0, 10)\<close> after one of the rows \<open>[10, 20)\<close>.
\<close>

definition example_plan :: "string RangesAndKey list" where
  "example_plan =
     [\<lparr>row_range = (10, 20), col_range = (0, 5), key = ''c''\<rparr>,
      \<lparr>row_range = (0, 10), col_range = (5, 9), key = ''b''\<rparr>,
      \<lparr>row_range = (0, 10), col_range = (0, 5), key = ''a''\<rparr>]"

subsection \<open>RowRangeClause\<close>

text \<open>
  The members and the two constructors are those of clause.hpp: \<open>n\<close> and the
  user-provided bounds are signed 64-bit integers (read with \<open>sint\<close>), the kept row range
  \<open>[start, end)\<close> is a pair of unsigned 64-bit integers.
\<close>

datatype RowRangeType = HEAD | TAIL | RANGE

record RowRangeClause =
  rrc_row_range_type :: RowRangeType
  rrc_n :: "64 word"
  rrc_user_provided_start :: "64 word"
  rrc_user_provided_end :: "64 word"
  rrc_start :: "64 word"
  rrc_end :: "64 word"

definition RowRangeClause_ctor :: "RowRangeType \<Rightarrow> 64 word \<Rightarrow> RowRangeClause" where
  "RowRangeClause_ctor row_range_type n =
     \<lparr>rrc_row_range_type = row_range_type, rrc_n = n,
      rrc_user_provided_start = 0, rrc_user_provided_end = 0, rrc_start = 0, rrc_end = 0\<rparr>"

definition RowRangeClause_ctor_range :: "64 word \<Rightarrow> 64 word \<Rightarrow> RowRangeClause" where
  "RowRangeClause_ctor_range start_arg end_arg =
     \<lparr>rrc_row_range_type = RANGE, rrc_n = 0,
      rrc_user_provided_start = start_arg, rrc_user_provided_end = end_arg,
      rrc_start = 0, rrc_end = 0\<rparr>"

text \<open>
  Modelled from the spec: \<^verbatim>\<open>RowRangeClause::set_processing_config\<close> and
  \<^verbatim>\<open>calculate_start_and_end\<close> are declared in clause.hpp and defined outside the sources at
  hand, as is \<^verbatim>\<open>ProcessingConfig\<close>. Section 4.6 of the specification: on
  \<^verbatim>\<open>set_processing_config(total_rows)\<close>, HEAD becomes \<open>[0, min(n, total))\<close>, TAIL becomes
  \<open>[max(0, total - n), total)\<close>, and RANGE uses the provided bounds, negative values counting
  from the end, clamped. The arithmetic is on integers; the result is stored in the unsigned
  64-bit members.
\<close>

record ProcessingConfig =
  pc_dynamic_schema :: bool
  pc_total_rows :: "64 word"

definition to_uint64 :: "int \<Rightarrow> 64 word" where
  "to_uint64 i = word_of_int i"

definition wrap_and_clamp :: "int \<Rightarrow> int \<Rightarrow> int" where
  "wrap_and_clamp rows b = max 0 (min rows (if b < 0 then rows + b else b))"

definition calculate_start_and_end :: "RowRangeClause \<Rightarrow> 64 word \<Rightarrow> RowRangeClause" where
  "calculate_start_and_end c total_rows =
     (let rows = uint total_rows in
      case rrc_row_range_type c of
        HEAD \<Rightarrow> c\<lparr>rrc_start := 0, rrc_end := to_uint64 (min (sint (rrc_n c)) rows)\<rparr>
      | TAIL \<Rightarrow> c\<lparr>rrc_start := to_uint64 (max 0 (rows - sint (rrc_n c))), rrc_end := total_rows\<rparr>
      | RANGE \<Rightarrow> c\<lparr>rrc_start := to_uint64 (wrap_and_clamp rows (sint (rrc_user_provided_start c))),
                    rrc_end := to_uint64 (wrap_and_clamp rows (sint (rrc_user_provided_end c)))\<rparr>)"

definition RowRangeClause_set_processing_config :: "ProcessingConfig \<Rightarrow> RowRangeClause \<Rightarrow> RowRangeClause" where
  "RowRangeClause_set_processing_config processing_config c =
     calculate_start_and_end c (pc_total_rows processing_config)"

text \<open>The rows a configured clause keeps.\<close>

definition kept_rows :: "RowRangeClause \<Rightarrow> nat set" where
  "kept_rows c = {unat (rrc_start c) ..< unat (rrc_end c)}"

section \<open>read\_options.hpp\<close>

text \<open>
  Modelled from the spec: the enum \<^verbatim>\<open>OutputFormat\<close> (entity/output_format.hpp) and the
  helper \<^verbatim>\<open>opt_false\<close> (util/optional_defaults.hpp) are not part of the sources at hand.
  Section 6 of the specification lists the output formats and says that an unset boolean
  option counts as false; \<open>opt_false\<close> reads an optional boolean with that default.
\<close>

datatype OutputFormat = PANDAS | ARROW | NATIVE

definition opt_false :: "bool option \<Rightarrow> bool" where
  "opt_false opt = (case opt of None \<Rightarrow> False | Some b \<Rightarrow> b)"

record ReadOptionsData =
  force_strings_to_fixed :: "bool option"
  force_strings_to_object :: "bool option"
  incompletes :: "bool option"
  dynamic_schema :: "bool option"
  allow_sparse :: "bool option"
  set_tz :: "bool option"
  optimise_string_memory :: "bool option"
  batch_throw_on_error :: "bool option"
  output_format :: OutputFormat

definition ReadOptionsData_init :: ReadOptionsData where
  "ReadOptionsData_init =
     \<lparr>force_strings_to_fixed = None, force_strings_to_object = None, incompletes = None,
      dynamic_schema = None, allow_sparse = None, set_tz = None,
      optimise_string_memory = None, batch_throw_on_error = None,
      output_format = PANDAS\<rparr>"

text \<open>
  \<^verbatim>\<open>ReadOptions\<close> holds its data behind a shared pointer; a fresh object points to a fresh,
  default-initialised \<^verbatim>\<open>ReadOptionsData\<close>. Nothing here depends on two objects sharing
  it, so the record holds the data itself.
\<close>

record ReadOptions =
  data :: ReadOptionsData

definition ReadOptions_init :: ReadOptions where
  "ReadOptions_init = \<lparr>data = ReadOptionsData_init\<rparr>"

definition ReadOptions_set_incompletes :: "bool option \<Rightarrow> ReadOptions \<Rightarrow> ReadOptions" where
  "ReadOptions_set_incompletes v ro = ro\<lparr>data := (data ro)\<lparr>incompletes := v\<rparr>\<rparr>"

definition ReadOptions_get_incompletes :: "ReadOptions \<Rightarrow> bool" where
  "ReadOptions_get_incompletes ro = opt_false (incompletes (data ro))"

definition ReadOptions_output_format :: "ReadOptions \<Rightarrow> OutputFormat" where
  "ReadOptions_output_format ro = output_format (data ro)"

section \<open>mongo\_client.cpp\<close>

subsection \<open>Documents\<close>

text \<open>
  A BSON document is an ordered list of fields; looking a field up takes its first
  occurrence. The typed accessors of bsoncxx (\<^verbatim>\<open>get_int32\<close>, \<^verbatim>\<open>get_int64\<close>,
  \<^verbatim>\<open>get_string\<close>, \<^verbatim>\<open>get_binary\<close>) raise on an absent field and on a field of another
  type. Integers are kept as bit patterns of their width.
\<close>

datatype bson_value =
    B_int32 "32 word"
  | B_int64 "64 word"
  | B_string string
  | B_binary "8 word list"

type_synonym document = "(string \<times> bson_value) list"

definition get_int32 :: "document \<Rightarrow> string \<Rightarrow> error + 32 word" where
  "get_int32 doc field =
     (case map_of doc field of Some (B_int32 v) \<Rightarrow> Inr v | _ \<Rightarrow> Inl BsonError)"

definition get_int64 :: "document \<Rightarrow> string \<Rightarrow> error + 64 word" where
  "get_int64 doc field =
     (case map_of doc field of Some (B_int64 v) \<Rightarrow> Inr v | _ \<Rightarrow> Inl BsonError)"

definition get_string_element :: "document \<Rightarrow> string \<Rightarrow> error + string" where
  "get_string_element doc field =
     (case map_of doc field of Some (B_string v) \<Rightarrow> Inr v | _ \<Rightarrow> Inl BsonError)"

definition get_binary :: "document \<Rightarrow> string \<Rightarrow> error + 8 word list" where
  "get_binary doc field =
     (case map_of doc field of Some (B_binary v) \<Rightarrow> Inr v | _ \<Rightarrow> Inl BsonError)"

text \<open>
  A query filter is itself a document: a stored document matches when each field of the
  filter is present in it with an equal value. \<^verbatim>\<open>find\<close> yields the matching documents in the
  collection's order, \<^verbatim>\<open>find_one\<close> the first of them; the empty filter matches everything.
\<close>

definition matches_filter :: "document \<Rightarrow> document \<Rightarrow> bool" where
  "matches_filter flt doc = list_all (\<lambda>(field, v). map_of doc field = Some v) flt"

definition find_docs :: "document list \<Rightarrow> document \<Rightarrow> document list" where
  "find_docs collection flt = filter (matches_filter flt) collection"

definition find_one :: "document list \<Rightarrow> document \<Rightarrow> document option" where
  "find_one collection flt = List.find (matches_filter flt) collection"

subsection \<open>Keys\<close>

text \<open>
  Modelled from the spec: the key classes (entity/atom_key.hpp, ref_key.hpp, variant_key.hpp)
  and the enum \<^verbatim>\<open>KeyType\<close> are not part of the sources at hand; the specification treats a
  storage key as opaque. The fields are those mongo_client.cpp reads and writes: a stream id
  that is a number or a string, index values that are a number or a string, and the 64-bit
  version id, creation timestamp and content hash. Of the key types the code names
  \<^verbatim>\<open>KeyType::VERSION\<close> only.
\<close>

datatype KeyType = VERSION | KeyType_other nat

datatype StreamId = NumericId "64 word" | StringId string

datatype IndexValue = NumericIndex "64 word" | StringIndex string

record AtomKey =
  ak_id :: StreamId
  ak_version_id :: "64 word"
  ak_creation_ts :: "64 word"
  ak_content_hash :: "64 word"
  ak_start_index :: IndexValue
  ak_end_index :: IndexValue
  ak_type :: KeyType

record RefKey =
  rk_id :: StreamId
  rk_type :: KeyType
  rk_old_type :: bool

datatype VariantKey = Atom AtomKey | Ref RefKey

fun variant_key_type :: "VariantKey \<Rightarrow> KeyType" where
  "variant_key_type (Atom k) = ak_type k"
| "variant_key_type (Ref k) = rk_type k"

fun variant_key_id :: "VariantKey \<Rightarrow> StreamId" where
  "variant_key_id (Atom k) = ak_id k"
| "variant_key_id (Ref k) = rk_id k"

text \<open>
  What mongo_client.cpp takes from the rest of the code base is a parameter: the two
  classifications of key types, the integer of \<^verbatim>\<open>IndexDescriptorImpl::Type::TIMESTAMP\<close>,
  the text \<^verbatim>\<open>fmt::format\<close> gives a key and a stream id, \<^verbatim>\<open>operator==\<close> on keys, and
  \<^verbatim>\<open>Segment::from_bytes\<close>.
\<close>

record 'seg deps =
  is_string_key_type :: "KeyType \<Rightarrow> bool"
  is_ref_key_class :: "KeyType \<Rightarrow> bool"
  TIMESTAMP :: "32 word"
  format_key :: "VariantKey \<Rightarrow> string"
  format_stream_id :: "StreamId \<Rightarrow> string"
  key_equal :: "VariantKey \<Rightarrow> VariantKey \<Rightarrow> bool"
  from_bytes :: "8 word list \<Rightarrow> nat \<Rightarrow> error + 'seg"

text \<open>
  What a call meets outside the process: the connection pool (an exception of the backoff,
  or whether the client it returned is non-null), the storage failure simulator (the
  exception it raises for a read, if it is configured and raises) and the server's
  databases and collections.
\<close>

record world =
  pool_acquire :: "error + bool"
  simulated_read_failure :: "error option"
  server :: "string \<Rightarrow> string \<Rightarrow> document list"

definition get_client :: "world \<Rightarrow> error + unit" where
  "get_client w =
     bind_err (pool_acquire w) (\<lambda>client. if client then Inr () else Inl CheckFailure)"

definition stream_id_from_document :: "'seg deps \<Rightarrow> document \<Rightarrow> KeyType \<Rightarrow> error + StreamId" where
  "stream_id_from_document d doc key_type =
     (if is_string_key_type d key_type
      then bind_err (get_string_element doc ''stream_id'') (\<lambda>s. Inr (StringId s))
      else bind_err (get_int64 doc ''stream_id'') (\<lambda>n. Inr (NumericId n)))"

definition atom_key_from_document :: "'seg deps \<Rightarrow> document \<Rightarrow> KeyType \<Rightarrow> error + AtomKey" where
  "atom_key_from_document d doc key_type =
     bind_err (get_int32 doc ''index_type'') (\<lambda>index_type.
     bind_err
       (if index_type = TIMESTAMP d
        then bind_err (get_int64 doc ''start_time'') (\<lambda>s.
             bind_err (get_int64 doc ''end_time'') (\<lambda>e.
             Inr (NumericIndex s, NumericIndex e)))
        else bind_err (get_string_element doc ''start_key'') (\<lambda>s.
             bind_err (get_string_element doc ''end_key'') (\<lambda>e.
             Inr (StringIndex s, StringIndex e))))
       (\<lambda>(start_index, end_index).
     bind_err (stream_id_from_document d doc key_type) (\<lambda>stream_id.
     bind_err (get_int64 doc ''version_id'') (\<lambda>version_id.
     bind_err (get_int64 doc ''creation_ts'') (\<lambda>creation_ts.
     bind_err (get_int64 doc ''content_hash'') (\<lambda>content_hash.
     Inr \<lparr>ak_id = stream_id, ak_version_id = version_id, ak_creation_ts = creation_ts,
          ak_content_hash = content_hash, ak_start_index = start_index,
          ak_end_index = end_index, ak_type = key_type\<rparr>))))))"

definition ref_key_from_document :: "'seg deps \<Rightarrow> document \<Rightarrow> KeyType \<Rightarrow> error + RefKey" where
  "ref_key_from_document d doc key_type =
     bind_err (stream_id_from_document d doc key_type) (\<lambda>stream_id.
     let is_old_type = (key_type = VERSION)
     in Inr \<lparr>rk_id = stream_id, rk_type = key_type, rk_old_type = is_old_type\<rparr>)"

definition variant_key_from_document ::
  "'seg deps \<Rightarrow> document \<Rightarrow> VariantKey \<Rightarrow> error + VariantKey" where
  "variant_key_from_document d doc k =
     (let key_type = variant_key_type k
      in case k of
           Atom _ \<Rightarrow> bind_err (atom_key_from_document d doc key_type) (\<lambda>a. Inr (Atom a))
         | Ref _ \<Rightarrow> bind_err (ref_key_from_document d doc key_type) (\<lambda>r. Inr (Ref r)))"

subsection \<open>MongoClientImpl::read\_segment\<close>

definition read_filter :: "'seg deps \<Rightarrow> VariantKey \<Rightarrow> document" where
  "read_filter d k =
     [(''key'', B_string (format_key d k)),
      (''stream_id'', B_string (format_stream_id d (variant_key_id k)))]"

definition read_segment ::
  "'seg deps \<Rightarrow> world \<Rightarrow> string \<Rightarrow> string \<Rightarrow> VariantKey
     \<Rightarrow> error + (VariantKey \<times> 'seg) option" where
  "read_segment d w database_name collection_name k =
     bind_err (get_client w) (\<lambda>_.
       let collection = server w database_name collection_name
       in case simulated_read_failure w of
            Some e \<Rightarrow> Inl e
          | None \<Rightarrow>
             (case find_one collection (read_filter d k) of
                Some doc \<Rightarrow>
                  bind_err (get_int64 doc ''total_size'') (\<lambda>size.
                  bind_err (variant_key_from_document d doc k) (\<lambda>stored_key.
                  if \<not> key_equal d stored_key k then Inl CheckFailure
                  else bind_err (get_binary doc ''data'') (\<lambda>bytes.
                       bind_err (from_bytes d bytes (unat size)) (\<lambda>seg.
                       Inr (Some (stored_key, seg))))))
              | None \<Rightarrow> Inr None))"

subsection \<open>MongoClientImpl::list\_keys\<close>

definition key_from_document :: "'seg deps \<Rightarrow> KeyType \<Rightarrow> document \<Rightarrow> error + VariantKey" where
  "key_from_document d key_type doc =
     (if \<not> is_ref_key_class d key_type
      then bind_err (atom_key_from_document d doc key_type) (\<lambda>a. Inr (Atom a))
      else bind_err (ref_key_from_document d doc key_type) (\<lambda>r. Inr (Ref r)))"

fun list_keys_loop ::
  "'seg deps \<Rightarrow> KeyType \<Rightarrow> document list \<Rightarrow> VariantKey list \<Rightarrow> error + VariantKey list" where
  "list_keys_loop d key_type [] keys = Inr keys"
| "list_keys_loop d key_type (doc # cursor) keys =
     bind_err (key_from_document d key_type doc) (\<lambda>k.
     list_keys_loop d key_type cursor (keys @ [k]))"

definition list_keys ::
  "'seg deps \<Rightarrow> world \<Rightarrow> string \<Rightarrow> string \<Rightarrow> KeyType \<Rightarrow> string option
     \<Rightarrow> error + VariantKey list" where
  "list_keys d w database_name collection_name key_type prefix =
     bind_err (get_client w) (\<lambda>_.
       let collection = server w database_name collection_name;
           has_prefix = (prefix \<noteq> None \<and> the prefix \<noteq> []);
           cursor = (if has_prefix
                     then find_docs collection [(''stream_id'', B_string (the prefix))]
                     else find_docs collection [])
       in list_keys_loop d key_type cursor [])"

subsection \<open>A concrete configuration\<close>

text \<open>
  One choice of the parameters and one small server, on which the theorems about the Mongo
  client are evaluated: every key type is a string key type, VERSION is the only ref key
  class, a key is printed as its stream id, keys are compared structurally and a segment
  is the first \<open>size\<close> bytes of the stored data.
\<close>

fun example_format_stream_id :: "StreamId \<Rightarrow> string" where
  "example_format_stream_id (StringId s) = s"
| "example_format_stream_id (NumericId n) = ''id''"

definition example_deps :: "(8 word list) deps" where
  "example_deps =
     \<lparr>is_string_key_type = (\<lambda>_. True),
      is_ref_key_class = (\<lambda>kt. kt = VERSION),
      TIMESTAMP = 84,
      format_key = (\<lambda>k. example_format_stream_id (variant_key_id k)),
      format_stream_id = example_format_stream_id,
      key_equal = (=),
      from_bytes = (\<lambda>bytes n. Inr (take n bytes))\<rparr>"

definition example_doc :: "string \<Rightarrow> document" where
  "example_doc name =
     [(''key_type'', B_int32 4), (''key'', B_string name), (''stream_id'', B_string name),
      (''total_size'', B_int64 2), (''data'', B_binary [1, 2, 3])]"

definition example_world :: world where
  "example_world =
     \<lparr>pool_acquire = Inr True, simulated_read_failure = None,
      server = (\<lambda>db coll. if db = ''arctic'' \<and> coll = ''lib'' then [example_doc ''a'', example_doc ''b''] else [])\<rparr>"

definition example_ref_key :: "string \<Rightarrow> bool \<Rightarrow> VariantKey" where
  "example_ref_key name old = Ref \<lparr>rk_id = StringId name, rk_type = VERSION, rk_old_type = old\<rparr>"

section \<open>Theorems\<close>

subsection \<open>Auxiliary facts\<close>

lemma bind_err_Inr_iff:
  "(bind_err m f = Inr y) = (\<exists>x. m = Inr x \<and> f x = Inr y)"
  by (cases m) (simp_all add: bind_err_def)

lemma bind_err_Inr [simp]: "bind_err (Inr x) f = f x"
  by (simp add: bind_err_def)

lemma bind_err_Inl [simp]: "bind_err (Inl e) f = Inl e"
  by (simp add: bind_err_def)

lemma find_docs_empty_filter: "find_docs collection [] = collection"
  by (simp add: find_docs_def matches_filter_def)

lemma matches_filter_single:
  "matches_filter [(field, v)] = (\<lambda>doc. map_of doc field = Some v)"
  by (rule ext) (simp add: matches_filter_def)

lemma list_keys_loop_decodes:
  "list_keys_loop d kt docs acc = Inr ks \<Longrightarrow>
     \<exists>new. ks = acc @ new \<and> map (key_from_document d kt) docs = map Inr new"
proof (induction docs arbitrary: acc)
  case Nil
  then show ?case by simp
next
  case (Cons doc docs)
  from Cons.prems obtain k where k: "key_from_document d kt doc = Inr k"
    and rest: "list_keys_loop d kt docs (acc @ [k]) = Inr ks"
    by (auto simp: bind_err_Inr_iff)
  from Cons.IH [OF rest] obtain new where "ks = (acc @ [k]) @ new"
    and "map (key_from_document d kt) docs = map Inr new" by blast
  then show ?case using k by (intro exI [of _ "k # new"]) simp
qed

lemma find_one_None_iff:
  "(find_one collection flt = None) = (\<not> (\<exists>doc \<in> set collection. matches_filter flt doc))"
  by (auto simp: find_one_def find_None_iff)

lemmas example_simps =
  example_deps_def example_doc_def example_world_def example_ref_key_def
  get_client_def find_one_def find_docs_def matches_filter_def read_filter_def
  variant_key_from_document_def ref_key_from_document_def atom_key_from_document_def
  stream_id_from_document_def get_int64_def get_int32_def get_string_element_def get_binary_def
  key_from_document_def

lemma wrap_and_clamp_bounds: "0 \<le> rows \<Longrightarrow> 0 \<le> wrap_and_clamp rows b \<and> wrap_and_clamp rows b \<le> rows"
  by (auto simp: wrap_and_clamp_def)

lemma uint_to_uint64_small: "0 \<le> i \<Longrightarrow> i \<le> uint (t :: 64 word) \<Longrightarrow> uint (to_uint64 i) = i"
proof -
  assume a: "0 \<le> i" "i \<le> uint t"
  have "uint t < 2 ^ 64" using uint_bounded [of t] by simp
  with a have "i < 2 ^ 64" by linarith
  with a show ?thesis unfolding to_uint64_def
    by (simp add: uint_word_of_int take_bit_int_eq_self)
qed

lemma uint_to_uint64_fits: "0 \<le> i \<Longrightarrow> i < 2 ^ 64 \<Longrightarrow> uint (to_uint64 i) = i"
  unfolding to_uint64_def by (simp add: uint_word_of_int take_bit_int_eq_self)

lemma kept_rows_uint:
  "uint (rrc_start c) = a \<Longrightarrow> uint (rrc_end c) = b \<Longrightarrow> kept_rows c = {nat a ..< nat b}"
  by (simp add: kept_rows_def unat_eq_nat_uint)

lemma head_negative_example:
  "calculate_start_and_end (RowRangeClause_ctor HEAD (- 2)) 10
     = \<lparr>rrc_row_range_type = HEAD, rrc_n = - 2,
        rrc_user_provided_start = 0, rrc_user_provided_end = 0,
        rrc_start = 0, rrc_end = - 2\<rparr>"
  by (simp add: calculate_start_and_end_def RowRangeClause_ctor_def to_uint64_def)

lemma tail_overflow_example:
  "calculate_start_and_end (RowRangeClause_ctor TAIL (- 1)) 18446744073709551615
     = \<lparr>rrc_row_range_type = TAIL, rrc_n = - 1,
        rrc_user_provided_start = 0, rrc_user_provided_end = 0,
        rrc_start = 0, rrc_end = 18446744073709551615\<rparr>"
  by (simp add: calculate_start_and_end_def RowRangeClause_ctor_def to_uint64_def)

lemma range_example:
  "calculate_start_and_end (RowRangeClause_ctor_range (- 3) (- 1)) 10
     = \<lparr>rrc_row_range_type = RANGE, rrc_n = 0,
        rrc_user_provided_start = - 3, rrc_user_provided_end = - 1,
        rrc_start = 7, rrc_end = 9\<rparr>"
  by (simp add: calculate_start_and_end_def RowRangeClause_ctor_range_def wrap_and_clamp_def
      to_uint64_def)

lemma rows_7_8: "{7 ..< 9 :: nat} = {7, 8}"
  by auto

lemma row_ranges_in_order_set [simp]: "set (row_ranges_in_order plan) = row_range ` set plan"
  by (simp add: row_ranges_in_order_def)

lemma row_ranges_in_order_distinct [simp]: "distinct (row_ranges_in_order plan)"
  by (simp add: row_ranges_in_order_def)

lemma group_member:
  "g \<in> set (group_by_row_range plan) \<Longrightarrow> i \<in> set g \<Longrightarrow> i < length plan"
  by (auto simp: group_by_row_range_def)

lemma group_same_row_range:
  "g \<in> set (group_by_row_range plan) \<Longrightarrow> i \<in> set g \<Longrightarrow> j \<in> set g
     \<Longrightarrow> row_range (plan ! i) = row_range (plan ! j)"
  by (auto simp: group_by_row_range_def)

lemma group_whole_slice:
  "g \<in> set (group_by_row_range plan) \<Longrightarrow> i \<in> set g \<Longrightarrow> j < length plan
     \<Longrightarrow> row_range (plan ! j) = row_range (plan ! i) \<Longrightarrow> j \<in> set g"
  by (auto simp: group_by_row_range_def)

lemma group_unique:
  assumes "i < length plan"
  shows "\<exists>!g. g \<in> set (group_by_row_range plan) \<and> i \<in> set g"
proof
  let ?g = "filter (\<lambda>j. row_range (plan ! j) = row_range (plan ! i)) [0..<length plan]"
  from assms have r: "row_range (plan ! i) \<in> set (row_ranges_in_order plan)" by simp
  have "?g \<in> set (group_by_row_range plan)"
    unfolding group_by_row_range_def set_map
    by (rule image_eqI [where x = "row_range (plan ! i)"]) (simp_all only: r)
  moreover from assms have "i \<in> set ?g" by simp
  ultimately show "?g \<in> set (group_by_row_range plan) \<and> i \<in> set ?g" ..
next
  fix g
  assume "g \<in> set (group_by_row_range plan) \<and> i \<in> set g"
  then show "g = filter (\<lambda>j. row_range (plan ! j) = row_range (plan ! i)) [0..<length plan]"
    by (auto simp: group_by_row_range_def)
qed

lemma example_structure:
  "structure_by_row_slice example_plan =
     ([\<lparr>row_range = (0, 10), col_range = (0, 5), key = ''a''\<rparr>,
       \<lparr>row_range = (0, 10), col_range = (5, 9), key = ''b''\<rparr>,
       \<lparr>row_range = (10, 20), col_range = (0, 5), key = ''c''\<rparr>],
      [[0, 1], [2]])"
  by code_simp

lemma example_structure_rest:
  "structure_by_row_slice (drop 1 example_plan) =
     ([\<lparr>row_range = (0, 10), col_range = (0, 5), key = ''a''\<rparr>,
       \<lparr>row_range = (0, 10), col_range = (5, 9), key = ''b''\<rparr>],
      [[0, 1]])"
  by code_simp

subsection \<open>The claims\<close>

text \<open>
  C1. For every plan, the plan-level \<^verbatim>\<open>structure_for_processing\<close> of AggregationClause, of
  MergeClause and of ConcatClause raises E\_ASSERTION\_FAILURE and returns no grouping.
\<close>

theorem C1_never_first_raises:
  "AggregationClause_structure_for_processing plan = Inl E_ASSERTION_FAILURE
   \<and> MergeClause_structure_for_processing plan = Inl E_ASSERTION_FAILURE
   \<and> ConcatClause_structure_for_processing plan = Inl E_ASSERTION_FAILURE
   \<and> (\<forall>r. AggregationClause_structure_for_processing plan \<noteq> Inr r)
   \<and> (\<forall>r. MergeClause_structure_for_processing plan \<noteq> Inr r)
   \<and> (\<forall>r. ConcatClause_structure_for_processing plan \<noteq> Inr r)"
  by (simp add: AggregationClause_structure_for_processing_def
      MergeClause_structure_for_processing_def ConcatClause_structure_for_processing_def)




text \<open>
  C3, as stated, fails for the plan-level structuring: PassthroughClause hands the plan to
  \<^verbatim>\<open>structure_by_row_slice\<close>, which sorts it. A plan given in the order c, b, a comes back
  as a, b, c.
\<close>

theorem C3_passthrough_reorders_plan:
  "PassthroughClause_structure_for_processing example_plan =
     Inr ([\<lparr>row_range = (0, 10), col_range = (0, 5), key = ''a''\<rparr>,
           \<lparr>row_range = (0, 10), col_range = (5, 9), key = ''b''\<rparr>,
           \<lparr>row_range = (10, 20), col_range = (0, 5), key = ''c''\<rparr>],
          [[0, 1], [2]])
   \<and> [\<lparr>row_range = (0, 10), col_range = (0, 5), key = ''a''\<rparr>,
       \<lparr>row_range = (0, 10), col_range = (5, 9), key = ''b''\<rparr>,
       \<lparr>row_range = (10, 20), col_range = (0, 5), key = ''c''\<rparr>] \<noteq> example_plan"
  by (simp add: PassthroughClause_structure_for_processing_def example_structure)
     (simp add: example_plan_def)

text \<open>
  C3, amended. The entity-id-level \<^verbatim>\<open>structure_for_processing\<close> of PassthroughClause
  returns the incoming grouping exactly as given. The plan-level one applies
  \<^verbatim>\<open>structure_by_row_slice\<close>: the plan it leaves is the caller's plan sorted by (row range
  start, column range start), a permutation of it, and the groups are the row slices of that
  sorted plan.
\<close>

theorem C3_passthrough_structuring:
  "PassthroughClause_structure_for_processing_entities ids = ids
   \<and> (\<exists>plan' groups.
         PassthroughClause_structure_for_processing plan = Inr (plan', groups)
         \<and> plan' = sort_key slice_order plan
         \<and> mset plan' = mset plan
         \<and> sorted (map slice_order plan')
         \<and> groups = group_by_row_range plan')"
  by (simp add: PassthroughClause_structure_for_processing_entities_def
      PassthroughClause_structure_for_processing_def structure_by_row_slice_def Let_def)

text \<open>
  C4. For every input schema, \<^verbatim>\<open>ColumnStatsGenerationClause::modify_schema\<close> returns the
  empty OutputSchema: the result has no column and is the same for every input. So it
  differs from every schema that has a column, whatever schema the output of the clause's
  \<^verbatim>\<open>process\<close> has.
\<close>

theorem C4_column_stats_modify_schema_empty:
  "ColumnStatsGenerationClause_modify_schema s = OutputSchema_default
   \<and> columns (ColumnStatsGenerationClause_modify_schema s) = []
   \<and> (\<forall>s'. ColumnStatsGenerationClause_modify_schema s'
           = ColumnStatsGenerationClause_modify_schema s)
   \<and> (\<forall>out. columns out \<noteq> [] \<longrightarrow> ColumnStatsGenerationClause_modify_schema s \<noteq> out)"
  by (auto simp: ColumnStatsGenerationClause_modify_schema_def OutputSchema_default_def)

theorem C4_column_stats_modify_schema_empty_witness:
  "ColumnStatsGenerationClause_modify_schema
      \<lparr>columns = [(''price'', ''float64'', False)], index_column = Some ''time'',
       schema_is_dynamic = False\<rparr>
     = \<lparr>columns = [], index_column = None, schema_is_dynamic = False\<rparr>
   \<and> ColumnStatsGenerationClause_modify_schema
      \<lparr>columns = [(''price'', ''float64'', False)], index_column = Some ''time'',
       schema_is_dynamic = False\<rparr>
     \<noteq> \<lparr>columns = [(''price_min'', ''float64'', False)], index_column = None,
         schema_is_dynamic = False\<rparr>"
proof -
  let ?s = "\<lparr>columns = [(''price'', ''float64'', False)], index_column = Some ''time'',
       schema_is_dynamic = False\<rparr>"
  let ?out = "\<lparr>columns = [(''price_min'', ''float64'', False)], index_column = None,
         schema_is_dynamic = False\<rparr>"
  note inst = C4_column_stats_modify_schema_empty [of ?s]
  have "columns ?out \<noteq> []" by simp
  with inst have "ColumnStatsGenerationClause_modify_schema ?s \<noteq> ?out" by blast
  moreover from inst have "ColumnStatsGenerationClause_modify_schema ?s
      = \<lparr>columns = [], index_column = None, schema_is_dynamic = False\<rparr>"
    by (simp add: OutputSchema_default_def)
  ultimately show ?thesis by blast
qed

text \<open>
  C5. Constructing a FilterClause succeeds exactly when the root node name of the expression
  context is an ExpressionName; with any other root (a column or a value) the constructor
  raises E\_INVALID\_USER\_ARGUMENT.
\<close>

theorem C5_filter_ctor_root:
  "((\<exists>fc. FilterClause_ctor cols ctx opt = Inr fc) = (\<exists>n. root_node_name ctx = ExpressionName n))
   \<and> ((\<exists>fc. FilterClause_ctor cols ctx opt = Inr fc)
        \<or> FilterClause_ctor cols ctx opt = Inl E_INVALID_USER_ARGUMENT)"
  by (cases "root_node_name ctx") (simp_all add: FilterClause_ctor_def)

text \<open>
  C6. With \<open>incompletes_after\<close> not beyond the length of the plan, the plan-level
  \<^verbatim>\<open>structure_for_processing\<close> of SortClause returns the row-slice structuring of the
  plan without its first \<open>incompletes_after\<close> entries: the plan it leaves holds exactly
  the remaining entries, every index in a group refers to one of them, a group holds
  exactly the entries of one row range, and every remaining entry is in exactly one group.
\<close>

theorem C6_sort_skips_prefix:
  assumes "incompletes_after \<le> length plan"
  shows "\<exists>plan' groups.
           SortClause_structure_for_processing incompletes_after plan = Inr (plan', groups)
           \<and> (plan', groups) = structure_by_row_slice (drop incompletes_after plan)
           \<and> mset (take incompletes_after plan) + mset plan' = mset plan
           \<and> length plan' = length plan - incompletes_after
           \<and> (\<forall>g \<in> set groups. \<forall>i \<in> set g.
                 i < length plan' \<and> plan' ! i \<in> set (drop incompletes_after plan))
           \<and> (\<forall>g \<in> set groups. \<forall>i \<in> set g. \<forall>j \<in> set g.
                 row_range (plan' ! i) = row_range (plan' ! j))
           \<and> (\<forall>g \<in> set groups. \<forall>i \<in> set g. \<forall>j < length plan'.
                 row_range (plan' ! j) = row_range (plan' ! i) \<longrightarrow> j \<in> set g)
           \<and> (\<forall>i < length plan'. \<exists>!g. g \<in> set groups \<and> i \<in> set g)"
proof -
  let ?rest = "drop incompletes_after plan"
  let ?plan' = "sort_key slice_order ?rest"
  let ?groups = "group_by_row_range ?plan'"
  have res: "SortClause_structure_for_processing incompletes_after plan = Inr (?plan', ?groups)"
    using assms
    by (simp add: SortClause_structure_for_processing_def structure_by_row_slice_def Let_def)
  have eq: "(?plan', ?groups) = structure_by_row_slice ?rest"
    by (simp add: structure_by_row_slice_def Let_def)
  have "mset (take incompletes_after plan) + mset ?rest = mset plan"
    by (metis append_take_drop_id mset_append)
  then have ms: "mset (take incompletes_after plan) + mset ?plan' = mset plan"
    by simp
  have len: "length ?plan' = length plan - incompletes_after"
    by simp
  have set_eq: "set ?plan' = set ?rest"
    by simp
  have inside: "i < length ?plan' \<and> ?plan' ! i \<in> set ?rest"
    if "g \<in> set ?groups" "i \<in> set g" for g i
  proof -
    from that have "i < length ?plan'" by (rule group_member)
    then have "?plan' ! i \<in> set ?plan'" by (rule nth_mem)
    with \<open>i < length ?plan'\<close> set_eq show ?thesis by blast
  qed
  have same: "row_range (?plan' ! i) = row_range (?plan' ! j)"
    if "g \<in> set ?groups" "i \<in> set g" "j \<in> set g" for g i j
    using that by (rule group_same_row_range)
  have whole: "j \<in> set g"
    if "g \<in> set ?groups" "i \<in> set g" "j < length ?plan'"
       "row_range (?plan' ! j) = row_range (?plan' ! i)" for g i j
    using that by (rule group_whole_slice)
  have uniq: "\<exists>!g. g \<in> set ?groups \<and> i \<in> set g" if "i < length ?plan'" for i
    using that by (rule group_unique)
  from res eq ms len inside same whole uniq show ?thesis by blast
qed

theorem C6_sort_skips_prefix_witness:
  "(1::nat) \<le> length example_plan
   \<and> SortClause_structure_for_processing 1 example_plan =
       Inr ([\<lparr>row_range = (0, 10), col_range = (0, 5), key = ''a''\<rparr>,
             \<lparr>row_range = (0, 10), col_range = (5, 9), key = ''b''\<rparr>],
            [[0, 1]])"
proof -
  have le: "(1::nat) \<le> length example_plan"
    by (simp add: example_plan_def)
  from C6_sort_skips_prefix [OF le] obtain plan' groups where
    r: "SortClause_structure_for_processing 1 example_plan = Inr (plan', groups)" and
    e: "(plan', groups) = structure_by_row_slice (drop 1 example_plan)"
    by blast
  from r have "SortClause_structure_for_processing 1 example_plan =
       Inr ([\<lparr>row_range = (0, 10), col_range = (0, 5), key = ''a''\<rparr>,
             \<lparr>row_range = (0, 10), col_range = (5, 9), key = ''b''\<rparr>],
            [[0, 1]])"
    unfolding e example_structure_rest .
  with le show ?thesis by (rule conjI)
qed

text \<open>
  C7. A freshly constructed ReadOptions has every boolean knob unset and the output format
  PANDAS, and \<^verbatim>\<open>get_incompletes\<close> is false on it and on every ReadOptions whose
  \<^verbatim>\<open>incompletes\<close> is unset.
\<close>

theorem C7_read_options_defaults:
  "force_strings_to_fixed (data ReadOptions_init) = None
   \<and> force_strings_to_object (data ReadOptions_init) = None
   \<and> incompletes (data ReadOptions_init) = None
   \<and> dynamic_schema (data ReadOptions_init) = None
   \<and> allow_sparse (data ReadOptions_init) = None
   \<and> set_tz (data ReadOptions_init) = None
   \<and> optimise_string_memory (data ReadOptions_init) = None
   \<and> batch_throw_on_error (data ReadOptions_init) = None
   \<and> ReadOptions_output_format ReadOptions_init = PANDAS
   \<and> ReadOptions_get_incompletes ReadOptions_init = False
   \<and> ReadOptions_get_incompletes (ReadOptions_set_incompletes None ro) = False"
  by (simp add: ReadOptions_init_def ReadOptionsData_init_def ReadOptions_output_format_def
      ReadOptions_get_incompletes_def ReadOptions_set_incompletes_def opt_false_def)

text \<open>
  C8. For every instantiation of PartitionClause (every grouper and bucketizer, that is
  every choice of the three helpers), \<^verbatim>\<open>process\<close> on an empty list of entity ids returns
  the empty list and leaves the component manager as it was.
\<close>

theorem C8_partition_process_empty:
  "PartitionClause_process gather_entities partition_processing_segment push_entities
     gcol dyn cm [] = Inr ([], cm)"
  by (simp add: PartitionClause_process_def)

text \<open>
  C9. Provided a client is obtained and no read failure is simulated,
  \<^verbatim>\<open>read_segment\<close> returns \<open>None\<close> exactly when no stored document matches the query
  built from the requested key. When a document is found and the key rebuilt from it
  differs from the requested key, the call fails the check; whenever the call returns a
  pair, its key is the rebuilt key, it equals the requested key, and its segment is decoded
  from the document's data and stored size; and under those conditions it does return that
  pair.
\<close>

theorem C9_read_segment_result:
  assumes client: "get_client w = Inr ()" and nosim: "simulated_read_failure w = None"
  shows
    "((read_segment d w db coll k = Inr None)
        = (\<not> (\<exists>doc \<in> set (server w db coll). matches_filter (read_filter d k) doc)))
     \<and> (\<forall>doc size stored_key.
           find_one (server w db coll) (read_filter d k) = Some doc
           \<and> get_int64 doc ''total_size'' = Inr size
           \<and> variant_key_from_document d doc k = Inr stored_key
           \<and> \<not> key_equal d stored_key k
           \<longrightarrow> read_segment d w db coll k = Inl CheckFailure)
     \<and> (\<forall>stored_key seg.
           read_segment d w db coll k = Inr (Some (stored_key, seg))
           \<longrightarrow> key_equal d stored_key k
               \<and> (\<exists>doc size bytes.
                     find_one (server w db coll) (read_filter d k) = Some doc
                     \<and> variant_key_from_document d doc k = Inr stored_key
                     \<and> get_int64 doc ''total_size'' = Inr size
                     \<and> get_binary doc ''data'' = Inr bytes
                     \<and> from_bytes d bytes (unat size) = Inr seg))
     \<and> (\<forall>doc size stored_key bytes seg.
           find_one (server w db coll) (read_filter d k) = Some doc
           \<and> get_int64 doc ''total_size'' = Inr size
           \<and> variant_key_from_document d doc k = Inr stored_key
           \<and> key_equal d stored_key k
           \<and> get_binary doc ''data'' = Inr bytes
           \<and> from_bytes d bytes (unat size) = Inr seg
           \<longrightarrow> read_segment d w db coll k = Inr (Some (stored_key, seg)))"
proof -
  let ?found = "find_one (server w db coll) (read_filter d k)"
  have unfold: "read_segment d w db coll k =
        (case ?found of
           Some doc \<Rightarrow>
             bind_err (get_int64 doc ''total_size'') (\<lambda>size.
             bind_err (variant_key_from_document d doc k) (\<lambda>stored_key.
             if \<not> key_equal d stored_key k then Inl CheckFailure
             else bind_err (get_binary doc ''data'') (\<lambda>bytes.
                  bind_err (from_bytes d bytes (unat size)) (\<lambda>seg.
                  Inr (Some (stored_key, seg))))))
         | None \<Rightarrow> Inr None)"
    by (simp add: read_segment_def client nosim)
  have none: "(read_segment d w db coll k = Inr None) = (?found = None)"
  proof (cases ?found)
    case None
    then show ?thesis by (simp add: unfold)
  next
    case (Some doc)
    then show ?thesis
      by (auto simp: unfold bind_err_Inr_iff split: if_splits)
  qed
  have mismatch: "read_segment d w db coll k = Inl CheckFailure"
    if "?found = Some doc" "get_int64 doc ''total_size'' = Inr size"
       "variant_key_from_document d doc k = Inr stored_key" "\<not> key_equal d stored_key k"
    for doc size stored_key
    using that by (simp add: unfold)
  have success: "key_equal d stored_key k
               \<and> (\<exists>doc size bytes. ?found = Some doc
                     \<and> variant_key_from_document d doc k = Inr stored_key
                     \<and> get_int64 doc ''total_size'' = Inr size
                     \<and> get_binary doc ''data'' = Inr bytes
                     \<and> from_bytes d bytes (unat size) = Inr seg)"
    if "read_segment d w db coll k = Inr (Some (stored_key, seg))" for stored_key seg
  proof (cases ?found)
    case None
    with that show ?thesis by (simp add: unfold)
  next
    case (Some doc)
    with that show ?thesis
      by (auto simp: unfold bind_err_Inr_iff split: if_splits)
  qed
  have conv: "read_segment d w db coll k = Inr (Some (stored_key, seg))"
    if "?found = Some doc" "get_int64 doc ''total_size'' = Inr size"
       "variant_key_from_document d doc k = Inr stored_key" "key_equal d stored_key k"
       "get_binary doc ''data'' = Inr bytes" "from_bytes d bytes (unat size) = Inr seg"
    for doc size stored_key bytes seg
    using that by (simp add: unfold)
  from none mismatch success conv show ?thesis
    unfolding find_one_None_iff by blast
qed

theorem C9_read_segment_result_witness:
  "get_client example_world = Inr ()
   \<and> simulated_read_failure example_world = None
   \<and> read_segment example_deps example_world ''arctic'' ''lib'' (example_ref_key ''b'' True)
       = Inr (Some (example_ref_key ''b'' True, [1, 2]))
   \<and> read_segment example_deps example_world ''arctic'' ''lib'' (example_ref_key ''b'' False)
       = Inl CheckFailure
   \<and> read_segment example_deps example_world ''arctic'' ''lib'' (example_ref_key ''c'' True)
       = Inr None"
proof -
  have client: "get_client example_world = Inr ()"
    by (simp add: example_simps)
  have nosim: "simulated_read_failure example_world = None"
    by (simp add: example_simps)
  note inst = C9_read_segment_result [OF client nosim, of example_deps "''arctic''" "''lib''"]
  have coll: "server example_world ''arctic'' ''lib'' = [example_doc ''a'', example_doc ''b'']"
    by (simp add: example_world_def)
  have found: "find_one (server example_world ''arctic'' ''lib'')
                 (read_filter example_deps (example_ref_key ''b'' old)) = Some (example_doc ''b'')" for old
    by (simp add: coll) (simp add: example_simps)
  have size: "get_int64 (example_doc ''b'') ''total_size'' = Inr 2"
    by (simp add: example_simps)
  have bytes: "get_binary (example_doc ''b'') ''data'' = Inr [1, 2, 3]"
    by (simp add: example_simps)
  have stored: "variant_key_from_document example_deps (example_doc ''b'') (example_ref_key ''b'' old)
                  = Inr (example_ref_key ''b'' True)" for old
    by (simp add: example_simps)
  have seg: "from_bytes example_deps [1, 2, 3] (unat (2 :: 64 word)) = Inr [1, 2]"
    by (simp add: example_deps_def)
  have eq: "key_equal example_deps (example_ref_key ''b'' True) (example_ref_key ''b'' True)"
    and neq: "\<not> key_equal example_deps (example_ref_key ''b'' True) (example_ref_key ''b'' False)"
    by (simp_all add: example_deps_def example_ref_key_def)
  have nomatch: "\<not> (\<exists>doc \<in> set (server example_world ''arctic'' ''lib'').
                     matches_filter (read_filter example_deps (example_ref_key ''c'' True)) doc)"
    by (simp add: coll) (simp add: example_simps)
  have ok: "read_segment example_deps example_world ''arctic'' ''lib'' (example_ref_key ''b'' True)
       = Inr (Some (example_ref_key ''b'' True, [1, 2]))"
    using inst [of "example_ref_key ''b'' True"] found [of True] size bytes stored [of True] seg eq
    by blast
  have bad: "read_segment example_deps example_world ''arctic'' ''lib'' (example_ref_key ''b'' False)
       = Inl CheckFailure"
    using inst [of "example_ref_key ''b'' False"] found [of False] size stored [of False] neq
    by blast
  have none: "read_segment example_deps example_world ''arctic'' ''lib'' (example_ref_key ''c'' True)
       = Inr None"
    using inst [of "example_ref_key ''c'' True"] nomatch by blast
  from client nosim ok bad none show ?thesis by blast
qed




end
